theory Spec2Isabelle
  imports Complex_Main "HOL-Library.Multiset"
begin

section \<open>The leaderboard pipeline of app.py\<close>

text \<open>
  The script is a straight line of pandas statements over one table \<open>df\<close>.  The model
  follows it statement by statement, on a table that is a list of rows.

  Modelling decisions, all of them about the library and not about the script:
  \<^item> a numeric cell is \<open>rat option\<close>: \<open>None\<close> is the null marker (NaN) that
    \<open>pd.to_numeric(errors="coerce")\<close> leaves for an absent or unparseable cell, so the
    model starts from the table as it is after lines 37-45;
  \<^item> numbers are exact rationals: the rounding error of float64, its infinities and
    the 64-bit range of \<open>Int64\<close> are outside the model;
  \<^item> a text cell is \<open>string option\<close>, \<open>None\<close> for a missing cell; a comparison of a
    missing cell with a string is false;
  \<^item> \<open>Series.astype("Int64")\<close> casts a whole column and raises \<open>TypeError\<close>
    ("cannot safely cast non-equivalent float64 to int64") when a present value is not
    an integer; null cells are cast to the null of \<open>Int64\<close>;
  \<^item> the renaming of the columns at line 79 changes labels only; the model keeps the
    field names of the working columns;
  \<^item> lines 51-56 add the columns wins, losses and games when they are absent, which
    after the loop of lines 39-41 they never are: the three tests do nothing.
\<close>

subsection \<open>Data model\<close>

datatype error = TypeError | ValueError | ZeroDivisionError

record row =
  player :: "string option"
  final_standing :: "rat option"
  win_rate :: "rat option"
  wins :: "rat option"
  losses :: "rat option"
  games :: "rat option"
  mu_rating :: "rat option"
  model :: "string option"
  prompt :: "string option"

type_synonym table = "row list"

subsection \<open>Numbers\<close>

definition is_integer :: "rat \<Rightarrow> bool" where
  "is_integer q \<longleftrightarrow> of_int \<lfloor>q\<rfloor> = q"

text \<open>\<open>Series.round()\<close> rounds to the nearest integer, a half to the even neighbour.\<close>

definition round_half_even :: "rat \<Rightarrow> rat" where
  "round_half_even q =
     (let f = \<lfloor>q\<rfloor>; d = q - of_int f in
      if d < 1 / 2 then of_int f
      else if 1 / 2 < d then of_int (f + 1)
      else if even f then of_int f else of_int (f + 1))"

text \<open>Python's \<open>int(x)\<close> on a float: truncation towards zero.\<close>

definition py_int :: "rat \<Rightarrow> int" where
  "py_int q = (if 0 \<le> q then \<lfloor>q\<rfloor> else \<lceil>q\<rceil>)"

text \<open>Elementwise arithmetic of two columns: a null operand gives a null result.\<close>

definition series_op :: "(rat \<Rightarrow> rat \<Rightarrow> rat) \<Rightarrow> rat option \<Rightarrow> rat option \<Rightarrow> rat option" where
  "series_op f a b = (case a of None \<Rightarrow> None | Some x \<Rightarrow> (case b of None \<Rightarrow> None | Some y \<Rightarrow> Some (f x y)))"

text \<open>
  The quotient \<open>df["wins"] / df["games"]\<close>.  A zero divisor gives an infinity or NaN
  in float64 and raises nothing; such a cell is never selected by \<open>mask_wr\<close>, and the
  model marks it null.
\<close>

definition series_div :: "rat option \<Rightarrow> rat option \<Rightarrow> rat option" where
  "series_div a b = (case a of None \<Rightarrow> None | Some x \<Rightarrow>
     (case b of None \<Rightarrow> None | Some y \<Rightarrow> if y = 0 then None else Some (x / y)))"

definition int64_castable :: "rat option list \<Rightarrow> bool" where
  "int64_castable col \<longleftrightarrow> list_all (\<lambda>c. case c of None \<Rightarrow> True | Some v \<Rightarrow> is_integer v) col"

definition fillna0 :: "rat option \<Rightarrow> rat option" where
  "fillna0 c = (case c of None \<Rightarrow> Some 0 | Some v \<Rightarrow> Some v)"

subsection \<open>Schema Normalizer: the rescaling of win rates (line 48)\<close>

definition rescale_row :: "row \<Rightarrow> row" where
  "rescale_row r =
     (case win_rate r of
        None \<Rightarrow> r
      | Some w \<Rightarrow> if 1 < w then r\<lparr>win_rate := Some (w / 100)\<rparr> else r)"

definition normalize :: "table \<Rightarrow> table" where
  "normalize df = map rescale_row df"

subsection \<open>The demo table (lines 24-30)\<close>

definition demo_row :: "string \<Rightarrow> rat \<Rightarrow> rat \<Rightarrow> rat \<Rightarrow> rat \<Rightarrow> string \<Rightarrow> string \<Rightarrow> row" where
  "demo_row p fs wr g mu md pr = \<lparr>player = Some p, final_standing = Some fs, win_rate = Some wr,
     wins = None, losses = None, games = Some g, mu_rating = Some mu, model = Some md,
     prompt = Some pr\<rparr>"

definition demo_data :: table where
  "demo_data =
     [demo_row ''Alpha'' 1 (92 / 100) 25 2100 ''Claude 3.5 Sonnet'' ''Careful positional play.'',
      demo_row ''Bravo'' 3 (78 / 100) 27 1980 ''Claude 3 Opus'' ''Dynamic attacking style.'',
      demo_row ''Charlie'' 5 (65 / 100) 26 1850 ''Claude 3 Haiku'' ''Stable and defensive.'',
      demo_row ''Delta'' 2 (84 / 100) 24 2050 ''Claude 3.5 Sonnet'' ''Balanced tactics and strategy.'',
      demo_row ''Echo'' 4 (81 / 100) 23 1995 ''Claude 3 Sonnet'' ''Exploiting weak squares.'']"

subsection \<open>Statistic Inferencer (lines 58-76)\<close>

definition mask_wins :: "row \<Rightarrow> bool" where
  "mask_wins r \<longleftrightarrow> wins r = None \<and> games r \<noteq> None \<and> win_rate r \<noteq> None"

definition est_wins :: "row \<Rightarrow> rat option" where
  "est_wins r = map_option round_half_even (series_op (*) (games r) (win_rate r))"

definition rule1_row :: "row \<Rightarrow> row" where
  "rule1_row r = (if mask_wins r then r\<lparr>wins := est_wins r\<rparr> else r)"

definition rule1 :: "table \<Rightarrow> error + table" where
  "rule1 df = (if int64_castable (map est_wins df) then Inr (map rule1_row df) else Inl TypeError)"

definition mask_losses :: "row \<Rightarrow> bool" where
  "mask_losses r \<longleftrightarrow> losses r = None \<and> games r \<noteq> None \<and> wins r \<noteq> None"

definition est_losses :: "row \<Rightarrow> rat option" where
  "est_losses r = series_op (-) (games r) (wins r)"

definition rule2_row :: "row \<Rightarrow> row" where
  "rule2_row r = (if mask_losses r then r\<lparr>losses := est_losses r\<rparr> else r)"

definition rule2 :: "table \<Rightarrow> error + table" where
  "rule2 df = (if int64_castable (map est_losses df) then Inr (map rule2_row df) else Inl TypeError)"

definition mask_games :: "row \<Rightarrow> bool" where
  "mask_games r \<longleftrightarrow> games r = None \<and> wins r \<noteq> None \<and> losses r \<noteq> None"

definition est_games :: "row \<Rightarrow> rat option" where
  "est_games r = series_op (+) (wins r) (losses r)"

definition rule3_row :: "row \<Rightarrow> row" where
  "rule3_row r = (if mask_games r then r\<lparr>games := est_games r\<rparr> else r)"

definition rule3 :: "table \<Rightarrow> error + table" where
  "rule3 df = (if int64_castable (map est_games df) then Inr (map rule3_row df) else Inl TypeError)"

definition mask_wr :: "row \<Rightarrow> bool" where
  "mask_wr r \<longleftrightarrow> win_rate r = None \<and> wins r \<noteq> None \<and> games r \<noteq> None
     \<and> (case games r of None \<Rightarrow> False | Some g \<Rightarrow> 0 < g)"

definition est_wr :: "row \<Rightarrow> rat option" where
  "est_wr r = series_div (wins r) (games r)"

definition rule4_row :: "row \<Rightarrow> row" where
  "rule4_row r = (if mask_wr r then r\<lparr>win_rate := est_wr r\<rparr> else r)"

definition rule4 :: "table \<Rightarrow> table" where
  "rule4 df = map rule4_row df"

definition fillna_row :: "row \<Rightarrow> row" where
  "fillna_row r = r\<lparr>wins := fillna0 (wins r), losses := fillna0 (losses r),
     games := fillna0 (games r), win_rate := fillna0 (win_rate r),
     mu_rating := fillna0 (mu_rating r), final_standing := fillna0 (final_standing r)\<rparr>"

definition fillna :: "table \<Rightarrow> table" where
  "fillna df = map fillna_row df"

definition infer :: "table \<Rightarrow> error + table" where
  "infer df =
     (case rule1 df of Inl e \<Rightarrow> Inl e | Inr d1 \<Rightarrow>
      (case rule2 d1 of Inl e \<Rightarrow> Inl e | Inr d2 \<Rightarrow>
       (case rule3 d2 of Inl e \<Rightarrow> Inl e | Inr d3 \<Rightarrow>
        Inr (fillna (rule4 d3)))))"

definition pipeline :: "table \<Rightarrow> error + table" where
  "pipeline raw = infer (normalize raw)"

text \<open>
  What the four statements and the zero-fill do to one row, once the three casts have
  gone through: a proof device, each rule being a map over the rows.
\<close>

definition infer_row :: "row \<Rightarrow> row" where
  "infer_row r = fillna_row (rule4_row (rule3_row (rule2_row (rule1_row r))))"

definition casts_ok :: "table \<Rightarrow> bool" where
  "casts_ok df \<longleftrightarrow>
     int64_castable (map est_wins df) \<and>
     int64_castable (map est_losses (map rule1_row df)) \<and>
     int64_castable (map est_games (map rule2_row (map rule1_row df)))"

subsection \<open>View Builder (lines 95-109)\<close>









definition pin_player :: "string \<Rightarrow> table \<Rightarrow> table" where
  "pin_player pin_choice df =
     (if pin_choice \<noteq> ''None''
      then filter (\<lambda>r. player r = Some pin_choice) df @ filter (\<lambda>r. player r \<noteq> Some pin_choice) df
      else df)"

subsection \<open>Summary Calculator (lines 115-119)\<close>








subsection \<open>Row highlighting (lines 124-131)\<close>

definition cols_to_show :: "string list" where
  "cols_to_show = [''Player'', ''Wins'', ''Losses'', ''Games'', ''Win Rate'', ''Final Standing'',
     ''Mu Rating'', ''Model'', ''Prompt'']"

text \<open>
  \<open>int\<close> of a null cell raises \<open>ValueError\<close>; a comparison with a null cell is false.
\<close>

definition highlight_row :: "string \<Rightarrow> row \<Rightarrow> error + string list" where
  "highlight_row pin_choice r =
     (if pin_choice \<noteq> ''None'' \<and> player r = Some pin_choice
      then Inr (replicate (length cols_to_show) ''background-color:#e8f0ff'')
      else (case final_standing r of
              None \<Rightarrow> Inl ValueError
            | Some fs \<Rightarrow>
                if py_int fs \<le> 3
                then Inr (replicate (length cols_to_show) ''background-color:#fff8dc'')
                else if (case win_rate r of None \<Rightarrow> False | Some w \<Rightarrow> 8 / 10 \<le> w)
                then Inr (replicate (length cols_to_show) ''background-color:#eaffea'')
                else Inr (replicate (length cols_to_show) [])))"

subsection \<open>Predicates used in the statements\<close>




definition stats_row :: "rat option \<Rightarrow> rat option \<Rightarrow> rat option \<Rightarrow> rat option \<Rightarrow> row" where
  "stats_row w l g wr = \<lparr>player = None, final_standing = None, win_rate = wr, wins = w,
     losses = l, games = g, mu_rating = None, model = None, prompt = None\<rparr>"









section \<open>Properties\<close>

subsection \<open>The Inferencer, row by row\<close>

lemmas row_defs = rule1_row_def rule2_row_def rule3_row_def rule4_row_def fillna_row_def fillna0_def
  mask_wins_def mask_losses_def mask_games_def mask_wr_def est_wins_def est_losses_def est_games_def est_wr_def
  series_op_def series_div_def

lemma infer_char: "infer df = (if casts_ok df then Inr (map infer_row df) else Inl TypeError)"
  by (simp add: infer_def casts_ok_def rule1_def rule2_def rule3_def rule4_def fillna_def infer_row_def)

lemma infer_Inr: "infer df = Inr out \<Longrightarrow> out = map infer_row df"
  by (simp add: infer_char split: if_splits)

















lemma infer_row_keeps_wins: "wins r = Some v \<Longrightarrow> wins (infer_row r) = Some v"
  by (simp add: infer_row_def row_defs)

lemma infer_row_keeps_losses: "losses r = Some v \<Longrightarrow> losses (infer_row r) = Some v"
  by (simp add: infer_row_def row_defs)

lemma infer_row_keeps_games: "games r = Some v \<Longrightarrow> games (infer_row r) = Some v"
  by (simp add: infer_row_def row_defs)

lemma infer_row_keeps_win_rate: "win_rate r = Some v \<Longrightarrow> win_rate (infer_row r) = Some v"
  by (simp add: infer_row_def row_defs)


subsection \<open>Fill precedence\<close>



subsection \<open>Present fields are kept\<close>

text \<open>
  Claim C8.  Whenever the Inferencer returns, its result has one row for each row of
  the input, and each of wins, losses, games and win rate that was present in an input
  row has the same value in the result, whatever the other fields say.
\<close>

theorem C8_present_fields_kept:
  "infer df = Inr out \<Longrightarrow>
     length out = length df \<and>
     (\<forall>i<length df.
        (\<forall>v. wins (df ! i) = Some v \<longrightarrow> wins (out ! i) = Some v) \<and>
        (\<forall>v. losses (df ! i) = Some v \<longrightarrow> losses (out ! i) = Some v) \<and>
        (\<forall>v. games (df ! i) = Some v \<longrightarrow> games (out ! i) = Some v) \<and>
        (\<forall>v. win_rate (df ! i) = Some v \<longrightarrow> win_rate (out ! i) = Some v))"
  by (auto dest!: infer_Inr simp: infer_row_keeps_wins infer_row_keeps_losses infer_row_keeps_games infer_row_keeps_win_rate)

theorem C8_present_fields_kept_witness:
  "infer [stats_row (Some 7) (Some 1) (Some 5) (Some (9 / 10))]
     = Inr [\<lparr>player = None, final_standing = Some 0, win_rate = Some (9 / 10), wins = Some 7,
              losses = Some 1, games = Some 5, mu_rating = Some 0, model = None, prompt = None\<rparr>]
   \<and> wins (stats_row (Some 7) (Some 1) (Some 5) (Some (9 / 10))) = Some 7
   \<and> length [\<lparr>player = None, final_standing = Some 0, win_rate = Some (9 / 10), wins = Some 7,
              losses = Some 1, games = Some 5, mu_rating = Some 0, model = None, prompt = None\<rparr>]
       = length [stats_row (Some 7) (Some 1) (Some 5) (Some (9 / 10))]"
proof -
  let ?df = "[stats_row (Some 7) (Some 1) (Some 5) (Some (9 / 10))]"
  let ?out = "[\<lparr>player = None, final_standing = Some 0, win_rate = Some (9 / 10), wins = Some 7,
              losses = Some 1, games = Some 5, mu_rating = Some 0, model = None, prompt = None\<rparr>]"
  have run: "infer ?df = Inr ?out" by code_simp
  from C8_present_fields_kept [OF run] have "length ?out = length ?df" by blast
  with run show ?thesis by (simp add: stats_row_def)
qed

subsection \<open>Zero games and the win rate\<close>

lemma infer_row_zero_rate:
  "win_rate r = None \<Longrightarrow> games (infer_row r) = Some 0 \<Longrightarrow> win_rate (infer_row r) = Some 0"
  by (cases "wins r"; cases "losses r"; cases "games r")
     (auto simp add: infer_row_def row_defs split: if_splits)

text \<open>
  Claim C5, as stated, fails: a row that comes with games 0 and a win rate of 0.5 keeps
  both, since no rule overwrites a present field.  The Inferencer returns it with games
  0 and win rate 0.5.
\<close>

theorem C5_counterexample:
  "infer [stats_row None None (Some 0) (Some (1 / 2))]
     = Inr [\<lparr>player = None, final_standing = Some 0, win_rate = Some (1 / 2), wins = Some 0,
              losses = Some 0, games = Some 0, mu_rating = Some 0, model = None, prompt = None\<rparr>]"
  by code_simp

text \<open>
  Claim C5, amended.  Whenever the Inferencer returns, every row whose win rate was
  missing in the input and whose games are 0 in the result has win rate 0 in the
  result.
\<close>

theorem C5_missing_rate_zero_games:
  "infer df = Inr out \<Longrightarrow> i < length df \<Longrightarrow> win_rate (df ! i) = None \<Longrightarrow>
     games (out ! i) = Some 0 \<Longrightarrow> win_rate (out ! i) = Some 0"
  by (auto dest!: infer_Inr simp: infer_row_zero_rate)

theorem C5_missing_rate_zero_games_witness:
  "infer [stats_row (Some 0) (Some 0) None None]
     = Inr [\<lparr>player = None, final_standing = Some 0, win_rate = Some 0, wins = Some 0,
              losses = Some 0, games = Some 0, mu_rating = Some 0, model = None, prompt = None\<rparr>]
   \<and> (0::nat) < length [stats_row (Some 0) (Some 0) None None]
   \<and> win_rate ([stats_row (Some 0) (Some 0) None None] ! 0) = None"
proof -
  let ?df = "[stats_row (Some 0) (Some 0) None None]"
  let ?out = "[\<lparr>player = None, final_standing = Some 0, win_rate = Some 0, wins = Some 0,
              losses = Some 0, games = Some 0, mu_rating = Some 0, model = None, prompt = None\<rparr>]"
  have run: "infer ?df = Inr ?out" by code_simp
  have i: "(0::nat) < length ?df" by simp
  have m: "win_rate (?df ! 0) = None" by (simp add: stats_row_def)
  have g: "games (?out ! 0) = Some 0" by simp
  from C5_missing_rate_zero_games [OF run i m g] have "win_rate (?out ! 0) = Some 0" .
  with run i m show ?thesis by blast
qed

subsection \<open>Running the Inferencer on its own result\<close>





subsection \<open>Ranges after the pipeline\<close>



lemma ratio_in_unit: "0 \<le> (w::rat) \<Longrightarrow> w \<le> g \<Longrightarrow> 0 < g \<Longrightarrow> 0 \<le> w / g \<and> w / g \<le> 1"
  by simp






subsection \<open>Sort direction\<close>












subsection \<open>Pinning\<close>

text \<open>
  Claim C7.  For a pin selection other than the no-pin value, the rows whose player is
  the selection come first, in their earlier order, and the other rows follow, in their
  earlier order; when no row has that player the table is returned as it is.  The
  function is total: nothing is raised.
\<close>

theorem C7_pin_moves_matches_first:
  "pin_choice \<noteq> ''None'' \<Longrightarrow>
     take (length (filter (\<lambda>r. player r = Some pin_choice) df)) (pin_player pin_choice df)
       = filter (\<lambda>r. player r = Some pin_choice) df
     \<and> drop (length (filter (\<lambda>r. player r = Some pin_choice) df)) (pin_player pin_choice df)
       = filter (\<lambda>r. player r \<noteq> Some pin_choice) df
     \<and> ((\<forall>r\<in>set df. player r \<noteq> Some pin_choice) \<longrightarrow> pin_player pin_choice df = df)"
  by (simp add: pin_player_def filter_empty_conv [THEN iffD2] filter_id_conv [THEN iffD2])

theorem C7_pin_moves_matches_first_witness:
  "''Bravo'' \<noteq> ''None''
   \<and> map player (pin_player ''Bravo'' demo_data)
     = [Some ''Bravo'', Some ''Alpha'', Some ''Charlie'', Some ''Delta'', Some ''Echo'']
   \<and> map player (take 1 (pin_player ''Bravo'' demo_data)) = [Some ''Bravo'']
   \<and> pin_player ''Zulu'' demo_data = demo_data"
proof -
  have n: "''Bravo'' \<noteq> ''None''" and z: "''Zulu'' \<noteq> ''None''" by simp_all
  have l: "length (filter (\<lambda>r. player r = Some ''Bravo'') demo_data) = 1" by code_simp
  have f: "map player (filter (\<lambda>r. player r = Some ''Bravo'') demo_data) = [Some ''Bravo'']" by code_simp
  have a: "\<forall>r\<in>set demo_data. player r \<noteq> Some ''Zulu''" by (simp add: demo_data_def demo_row_def)
  have p: "map player (pin_player ''Bravo'' demo_data)
     = [Some ''Bravo'', Some ''Alpha'', Some ''Charlie'', Some ''Delta'', Some ''Echo'']" by code_simp
  from C7_pin_moves_matches_first [OF n, of demo_data] l
  have "take 1 (pin_player ''Bravo'' demo_data) = filter (\<lambda>r. player r = Some ''Bravo'') demo_data"
    by simp
  with f have t: "map player (take 1 (pin_player ''Bravo'' demo_data)) = [Some ''Bravo'']" by simp
  from C7_pin_moves_matches_first [OF z, of demo_data] a
  have "pin_player ''Zulu'' demo_data = demo_data" by blast
  with n p t show ?thesis by blast
qed

subsection \<open>Summary metrics\<close>












subsection \<open>Row highlighting\<close>

lemma highlight_pinned_first:
  "pin_choice \<noteq> ''None'' \<Longrightarrow> player r = Some pin_choice \<Longrightarrow>
     highlight_row pin_choice r = Inr (replicate (length cols_to_show) ''background-color:#e8f0ff'')"
  by (simp add: highlight_row_def)

text \<open>
  Claim C3 against the code: a row that comes without a final standing leaves the
  pipeline with final standing 0, and \<open>highlight_row\<close>, which tests only
  \<open>int(row["Final Standing"]) <= 3\<close>, gives it the top-three style although it is
  not pinned and its win rate is 0.5.
\<close>

theorem C3_no_data_row_is_top_three:
  "pipeline [(stats_row None None (Some 10) (Some (1 / 2)))\<lparr>player := Some ''Zed''\<rparr>]
     = Inr [\<lparr>player = Some ''Zed'', final_standing = Some 0, win_rate = Some (1 / 2), wins = Some 5,
              losses = Some 5, games = Some 10, mu_rating = Some 0, model = None, prompt = None\<rparr>]
   \<and> highlight_row ''None'' \<lparr>player = Some ''Zed'', final_standing = Some 0, win_rate = Some (1 / 2),
        wins = Some 5, losses = Some 5, games = Some 10, mu_rating = Some 0, model = None, prompt = None\<rparr>
     = Inr (replicate 9 ''background-color:#fff8dc'')"
  by code_simp

end
